theory Spec2Isabelle
  imports Main "HOL-Library.Sublist"
begin

section \<open>The kerberos.ticket module: data model\<close>

text \<open>
  The module is one Python function, \<^verbatim>\<open>run_module\<close>, that talks to the host through
  \<^verbatim>\<open>os.popen\<close> and keeps two module-level variables, \<^verbatim>\<open>cmd\<close> and \<^verbatim>\<open>password\<close>.
  The embedding passes an explicit state: the two globals, the handlers registered with
  \<^verbatim>\<open>atexit\<close>, the list of commands given to \<^verbatim>\<open>os.popen\<close> so far (with what each
  returned), and the state of the host, which the commands may read and change.
\<close>

text \<open>A value held by one of the two globals: Python's \<^verbatim>\<open>None\<close> or a string.\<close>

datatype pyval = PyNone | PyStr string

text \<open>
  The task arguments as they arrive (\<^verbatim>\<open>None\<close> for an argument that is not given), and as
  \<^verbatim>\<open>module.params\<close> holds them once the argument specification of \<^verbatim>\<open>module_args\<close> has
  been applied. The password has type \<^verbatim>\<open>raw\<close>; it is modelled by the string that
  \<^verbatim>\<open>%s\<close> formats it to.
\<close>

record raw_params =
  r_username :: "string option"
  r_password :: "string option"
  r_realm :: "string option"
  r_force :: "bool option"
  r_forwardable :: "bool option"

record params =
  p_username :: string
  p_password :: string
  p_realm :: string
  p_force :: bool
  p_forwardable :: "bool option"

text \<open>The dictionary \<^verbatim>\<open>result\<close>, with the keys of the source.\<close>

record result =
  changed :: bool
  username :: string
  password :: string
  realm :: string
  principal :: string
  force :: bool
  forwardable :: string

text \<open>
  How a run ends: \<^verbatim>\<open>module.exit_json(**result)\<close>, \<^verbatim>\<open>module.fail_json(msg=..., **result)\<close>,
  or the failure that \<^verbatim>\<open>AnsibleModule(...)\<close> reports itself when a required argument is
  missing (with the names of the missing arguments).
\<close>

datatype outcome =
    ExitJson result
  | FailJson string result
  | ArgFail "string list"

text \<open>One use of \<^verbatim>\<open>os.popen\<close>: the command line, what the process wrote, its exit status.\<close>

record call =
  c_cmd :: string
  c_out :: string
  c_rc :: int

datatype handler = ClearSensitiveData

datatype py_error = NameError

text \<open>
  Besides the two globals the secret has one more holder: \<^verbatim>\<open>module.params['password']\<close>,
  from which line 121 copies it. \<open>module_params_password\<close> is what that entry holds
  (\<open>None\<close> while there is no such entry).
\<close>

record 'w state =
  g_cmd :: "pyval option"
  g_password :: "pyval option"
  module_params_password :: "string option"
  atexit_handlers :: "handler list"
  calls :: "call list"
  world :: 'w

text \<open>
  The host: a command line run in a host state gives the text written to the pipe, the
  exit status of the shell, and the next host state.
\<close>

type_synonym 'w shell = "'w \<Rightarrow> string \<Rightarrow> string \<times> int \<times> 'w"

section \<open>Python primitives used by the module\<close>

text \<open>
  \<^verbatim>\<open>s.find(sub)\<close>: the lowest index at which \<^verbatim>\<open>sub\<close> occurs in \<^verbatim>\<open>s\<close>, or \<^verbatim>\<open>-1\<close>.
\<close>

fun find_from :: "int \<Rightarrow> string \<Rightarrow> string \<Rightarrow> int" where
  "find_from i [] sub = (if sub = [] then i else - 1)"
| "find_from i (c # cs) sub = (if prefix sub (c # cs) then i else find_from (i + 1) cs sub)"

definition str_find :: "string \<Rightarrow> string \<Rightarrow> int" where
  "str_find s sub = find_from 0 s sub"

text \<open>
  \<^verbatim>\<open>shell.close()\<close> is \<^verbatim>\<open>None\<close> when the process exited with status 0, and the
  status shifted left by eight bits otherwise; \<^verbatim>\<open>None\<close> and \<^verbatim>\<open>0\<close> are false.
\<close>

definition close :: "int \<Rightarrow> int option" where
  "close rc = (if rc = 0 then None else Some (rc * 256))"

fun truthy :: "int option \<Rightarrow> bool" where
  "truthy None = False"
| "truthy (Some n) = (n \<noteq> 0)"

text \<open>
  \<^verbatim>\<open>cmd = c; shell = os.popen(cmd)\<close>, together with the \<^verbatim>\<open>read\<close> or
  \<^verbatim>\<open>close\<close> that follows: the global is assigned, the command runs on the host, and
  its output and exit status come back.
\<close>

definition popen :: "'w shell \<Rightarrow> string \<Rightarrow> 'w state \<Rightarrow> (string \<times> int) \<times> 'w state" where
  "popen sh c s =
     (case sh (world s) c of
        (out, rc, w') \<Rightarrow>
          ((out, rc),
           s\<lparr>g_cmd := Some (PyStr c),
             calls := calls s @ [\<lparr>c_cmd = c, c_out = out, c_rc = rc\<rparr>],
             world := w'\<rparr>))"

text \<open>
  The argument specification: \<^verbatim>\<open>username\<close>, \<^verbatim>\<open>password\<close> and \<^verbatim>\<open>realm\<close> are
  required, \<^verbatim>\<open>force\<close> defaults to \<^verbatim>\<open>False\<close> and \<^verbatim>\<open>forwardable\<close> to \<^verbatim>\<open>None\<close>.
  The library reports the names of the missing arguments sorted.
\<close>

definition missing :: "raw_params \<Rightarrow> string list" where
  "missing raw =
     (if r_password raw = None then [''password''] else []) @
     (if r_realm raw = None then [''realm''] else []) @
     (if r_username raw = None then [''username''] else [])"

definition AnsibleModule :: "raw_params \<Rightarrow> string list + params" where
  "AnsibleModule raw =
     (case (r_username raw, r_password raw, r_realm raw) of
        (Some u, Some p, Some r) \<Rightarrow>
          Inr \<lparr>p_username = u, p_password = p, p_realm = r,
               p_force = (case r_force raw of None \<Rightarrow> False | Some b \<Rightarrow> b),
               p_forwardable = r_forwardable raw\<rparr>
      | _ \<Rightarrow> Inl (missing raw))"

subsection \<open>What the library prints\<close>











section \<open>The module\<close>

text \<open>
  \<^verbatim>\<open>del cmd, password\<close> deletes the two names in turn; deleting a name that is not
  bound raises \<^verbatim>\<open>NameError\<close>, and the state stays as it is at that point.
  \<^verbatim>\<open>gc.collect()\<close> changes nothing that the state records.
\<close>

definition clear_sensitive_data :: "'w state \<Rightarrow> py_error option \<times> 'w state" where
  "clear_sensitive_data s =
     (if g_cmd s = None then (Some NameError, s)
      else let s1 = s\<lparr>g_cmd := None\<rparr> in
        if g_password s1 = None then (Some NameError, s1)
        else (None, s1\<lparr>g_password := None\<rparr>))"

text \<open>The command lines the module builds.\<close>

definition kdestroy_cmd :: "string \<Rightarrow> string" where
  "kdestroy_cmd pr = ''kdestroy -q -p '' @ pr @ '' 2>&1''"

definition kinit_cmd :: "string \<Rightarrow> string \<Rightarrow> string \<Rightarrow> string" where
  "kinit_cmd pw fw pr =
     ''echo -n '' @ [CHR 0x27] @ pw @ [CHR 0x27] @ '' | kinit '' @ fw @ '' '' @ pr @
     '' 2>&1 >/dev/null''"

text \<open>Lines 125 to 142: the forwardable flag, the principal and the initial result.\<close>

definition forwardable_flag :: "bool option \<Rightarrow> string" where
  "forwardable_flag fo =
     (case fo of None \<Rightarrow> '''' | Some b \<Rightarrow> if b then ''-f'' else ''-F'')"

definition initial_result :: "params \<Rightarrow> result" where
  "initial_result ps =
     \<lparr>changed = False,
      username = p_username ps,
      password = ''[REDACTED]'',
      realm = p_realm ps,
      principal = p_username ps @ ''@'' @ p_realm ps,
      force = p_force ps,
      forwardable = forwardable_flag (p_forwardable ps)\<rparr>"

text \<open>
  \<^verbatim>\<open>run_module\<close>, lines 99 to 202. \<^verbatim>\<open>AnsibleModule(...)\<close> loads the arguments into
  \<^verbatim>\<open>module.params\<close>, which no later line assigns or deletes, and ends the process itself
  when they are rejected, before the handler is registered (line 118). The global
  \<^verbatim>\<open>password\<close> is assigned once (line 121) and read once (line 190), so the model reads
  the value \<open>pw\<close> it stored. \<^verbatim>\<open>exit_json\<close> and \<^verbatim>\<open>fail_json\<close> do not return: each is
  a leaf of the model. In check mode (lines 146 to 164) the module inspects the cache and
  exits; otherwise (lines 168 to 186) it destroys or inspects, and unless it has exited it
  runs the acquisition (lines 190 to 202).
\<close>

definition run_module :: "'w shell \<Rightarrow> bool \<Rightarrow> raw_params \<Rightarrow> 'w state \<Rightarrow> outcome \<times> 'w state" where
  "run_module sh check_mode raw s =
     (let s0 = s\<lparr>module_params_password := r_password raw\<rparr> in
      case AnsibleModule raw of
        Inl names \<Rightarrow> (ArgFail names, s0)
      | Inr ps \<Rightarrow>
          let s1 = s0\<lparr>atexit_handlers := atexit_handlers s0 @ [ClearSensitiveData]\<rparr>;
              pw = p_password ps;
              s2 = s1\<lparr>g_password := Some (PyStr pw)\<rparr>;
              res = initial_result ps;
              pr = principal res;
              fw = forwardable res
          in
          if check_mode then
            (if \<not> p_force ps then
               (case popen sh ''klist -s'' s2 of
                  ((out1, rc1), s3) \<Rightarrow>
                    if \<not> truthy (close rc1) then
                      (case popen sh ''klist -l'' s3 of
                         ((cmd_output, rc2), s4) \<Rightarrow>
                           if str_find cmd_output pr \<noteq> - 1 then (ExitJson res, s4)
                           else (ExitJson (res\<lparr>changed := True\<rparr>), s4))
                    else (ExitJson (res\<lparr>changed := True\<rparr>), s3))
             else (ExitJson (res\<lparr>changed := True\<rparr>), s2))
          else
            (case
               (if p_force ps then
                  (case popen sh (kdestroy_cmd pr) s2 of
                     ((out1, rc1), s3) \<Rightarrow> (None, s3))
                else
                  (case popen sh ''klist -s'' s2 of
                     ((out1, rc1), s3) \<Rightarrow>
                       if \<not> truthy (close rc1) then
                         (case popen sh ''klist -l'' s3 of
                            ((cmd_output, rc2), s4) \<Rightarrow>
                              if str_find cmd_output pr \<noteq> - 1 then (Some (ExitJson res), s4)
                              else (None, s4))
                       else (None, s3)))
             of
               (Some done, s5) \<Rightarrow> (done, s5)
             | (None, s5) \<Rightarrow>
                 (case popen sh (kinit_cmd pw fw pr) s5 of
                    ((cmd_output, rc), s6) \<Rightarrow>
                      if truthy (close rc) then (FailJson cmd_output res, s6)
                      else
                        (ExitJson (res\<lparr>changed := True\<rparr>),
                         s6\<lparr>g_cmd := Some PyNone, g_password := Some PyNone\<rparr>))))"

text \<open>
  The interpreter runs the registered handlers when the process exits, last registered
  first; an exception raised by a handler is reported and the next handler runs.
\<close>

fun run_handler :: "handler \<Rightarrow> 'w state \<Rightarrow> 'w state" where
  "run_handler ClearSensitiveData s = snd (clear_sensitive_data s)"

definition run_atexit :: "'w state \<Rightarrow> 'w state" where
  "run_atexit s = fold run_handler (rev (atexit_handlers s)) s"

text \<open>The state after the module has been loaded (lines 91 and 92), on a host \<open>w\<close>.\<close>

definition init_state :: "'w \<Rightarrow> 'w state" where
  "init_state w =
     \<lparr>g_cmd = Some PyNone, g_password = Some PyNone, module_params_password = None,
      atexit_handlers = [], calls = [], world = w\<rparr>"

text \<open>
  One request, from the start of the process to its end: \<^verbatim>\<open>main\<close> calls
  \<^verbatim>\<open>run_module\<close>, whose \<^verbatim>\<open>exit_json\<close> or \<^verbatim>\<open>fail_json\<close> ends the process, and the
  handlers run.
\<close>

definition main :: "'w shell \<Rightarrow> bool \<Rightarrow> raw_params \<Rightarrow> 'w \<Rightarrow> outcome \<times> 'w state" where
  "main sh check_mode raw w =
     (case run_module sh check_mode raw (init_state w) of
        (out, s) \<Rightarrow> (out, run_atexit s))"


text \<open>
  \<open>n\<close> requests one after the other, each a process of its own that starts on the host
  as the previous one left it.
\<close>

fun repeat_main :: "'w shell \<Rightarrow> bool \<Rightarrow> raw_params \<Rightarrow> nat \<Rightarrow> 'w \<Rightarrow> (outcome \<times> 'w state) list" where
  "repeat_main sh check_mode raw 0 w = []"
| "repeat_main sh check_mode raw (Suc n) w =
     (let r = main sh check_mode raw w
      in r # repeat_main sh check_mode raw n (world (snd r)))"

section \<open>Notions used to state the properties\<close>

text \<open>The result dictionary that an outcome carries, if it carries one.\<close>

fun result_of :: "outcome \<Rightarrow> result option" where
  "result_of (ExitJson r) = Some r"
| "result_of (FailJson m r) = Some r"
| "result_of (ArgFail names) = None"

text \<open>The command lines of a run, in the order in which they were given to the shell.\<close>

definition commands :: "outcome \<times> 'w state \<Rightarrow> string list" where
  "commands r = map c_cmd (calls (snd r))"


text \<open>A global holds no string: it is unbound, or bound to \<^verbatim>\<open>None\<close>.\<close>

definition cleared :: "pyval option \<Rightarrow> bool" where
  "cleared v = (v = None \<or> v = Some PyNone)"

text \<open>
  On the host \<open>w\<close> the status command succeeds and the listing it is followed by
  contains \<open>pr\<close>; and the host as the two commands leave it.
\<close>

definition ticket_listed :: "'w shell \<Rightarrow> string \<Rightarrow> 'w \<Rightarrow> bool" where
  "ticket_listed sh pr w =
     (case sh w ''klist -s'' of
        (out1, rc1, w1) \<Rightarrow> rc1 = 0 \<and> sublist pr (fst (sh w1 ''klist -l'')))"

definition after_inspection :: "'w shell \<Rightarrow> 'w \<Rightarrow> 'w" where
  "after_inspection sh w = snd (snd (sh (snd (snd (sh w ''klist -s''))) ''klist -l''))"

subsection \<open>The blocks of \<^verbatim>\<open>run_module\<close> in closed form\<close>

text \<open>
  What one use of \<^verbatim>\<open>os.popen\<close> records and how it leaves the host; the state at the
  end of a process that parsed its arguments; the inspection of the cache (lines 148 to
  161 and again 173 to 186); the acquisition (lines 190 to 202). The lemmas
  \<open>main_dry_run\<close> and \<open>main_real\<close> below prove that \<open>main\<close> is made of these.
\<close>

definition run_call :: "'w shell \<Rightarrow> 'w \<Rightarrow> string \<Rightarrow> call" where
  "run_call sh w c = \<lparr>c_cmd = c, c_out = fst (sh w c), c_rc = fst (snd (sh w c))\<rparr>"

definition next_world :: "'w shell \<Rightarrow> 'w \<Rightarrow> string \<Rightarrow> 'w" where
  "next_world sh w c = snd (snd (sh w c))"

definition final_state :: "string \<Rightarrow> call list \<Rightarrow> 'w \<Rightarrow> 'w state" where
  "final_state pw cs w =
     \<lparr>g_cmd = None, g_password = None, module_params_password = Some pw,
      atexit_handlers = [ClearSensitiveData], calls = cs, world = w\<rparr>"

definition inspect :: "'w shell \<Rightarrow> string \<Rightarrow> 'w \<Rightarrow> bool \<times> call list \<times> 'w" where
  "inspect sh pr w =
     (let c1 = run_call sh w ''klist -s''; w1 = next_world sh w ''klist -s'';
          c2 = run_call sh w1 ''klist -l''; w2 = next_world sh w1 ''klist -l''
      in if c_rc c1 \<noteq> 0 then (False, [c1], w1)
         else (sublist pr (c_out c2), [c1, c2], w2))"

definition acquire :: "'w shell \<Rightarrow> params \<Rightarrow> call list \<Rightarrow> 'w \<Rightarrow> outcome \<times> 'w state" where
  "acquire sh ps cs w =
     (let res = initial_result ps;
          c = kinit_cmd (p_password ps) (forwardable res) (principal res);
          k = run_call sh w c
      in (if c_rc k = 0 then ExitJson (res\<lparr>changed := True\<rparr>) else FailJson (c_out k) res,
          final_state (p_password ps) (cs @ [k]) (next_world sh w c)))"

subsection \<open>Hosts and requests for concrete runs\<close>

text \<open>
  A host given by a table from command lines to output and exit status; as a shell
  does, it answers a command it cannot run with status 127.
\<close>

definition table_shell :: "(string \<times> string \<times> int) list \<Rightarrow> unit shell" where
  "table_shell t w c =
     (case map_of t c of
        None \<Rightarrow> (''sh: command not found'', 127, w)
      | Some (out, rc) \<Rightarrow> (out, rc, w))"

definition alice :: raw_params where
  "alice =
     \<lparr>r_username = Some ''alice'', r_password = Some ''hunter2'',
      r_realm = Some ''EXAMPLE.COM'', r_force = None, r_forwardable = None\<rparr>"

definition alice_params :: params where
  "alice_params =
     \<lparr>p_username = ''alice'', p_password = ''hunter2'', p_realm = ''EXAMPLE.COM'',
      p_force = False, p_forwardable = None\<rparr>"

definition alice_kinit :: string where
  "alice_kinit = kinit_cmd ''hunter2'' '''' ''alice@EXAMPLE.COM''"

text \<open>
  Hosts: a ticket for alice; a ticket for bob only; no \<^verbatim>\<open>klist\<close> at all; no ticket
  and a \<^verbatim>\<open>kinit\<close> that refuses the password.
\<close>

definition host_alice :: "unit shell" where
  "host_alice =
     table_shell
       [(''klist -s'', '''', 0), (''klist -l'', ''alice@EXAMPLE.COM'', 0),
        (''kdestroy -q -p alice@EXAMPLE.COM 2>&1'', '''', 0), (alice_kinit, '''', 0)]"

definition host_bob :: "unit shell" where
  "host_bob =
     table_shell
       [(''klist -s'', '''', 0), (''klist -l'', ''bob@EXAMPLE.COM'', 0),
        (alice_kinit, '''', 0)]"

definition host_no_klist :: "unit shell" where
  "host_no_klist = table_shell [(alice_kinit, '''', 0)]"

definition host_bad_password :: "unit shell" where
  "host_bad_password =
     table_shell [(''klist -s'', '''', 1), (alice_kinit, ''bad password'', 1)]"




text \<open>A request that gives the password and no realm.\<close>

definition no_realm :: raw_params where
  "no_realm =
     \<lparr>r_username = Some ''alice'', r_password = Some ''hunter2'', r_realm = None,
      r_force = None, r_forwardable = None\<rparr>"

section \<open>Basic facts\<close>

text \<open>\<^verbatim>\<open>s.find(sub) != -1\<close> says that \<^verbatim>\<open>sub\<close> occurs in \<^verbatim>\<open>s\<close>.\<close>

lemma find_from_sublist: "0 \<le> i \<Longrightarrow> (find_from i s sub \<noteq> - 1) = sublist sub s"
proof (induction s arbitrary: i)
  case Nil
  then show ?case by auto
next
  case (Cons c cs)
  have "find_from (i + 1) cs sub \<noteq> - 1 \<longleftrightarrow> sublist sub cs"
    using Cons.IH [of "i + 1"] Cons.prems by simp
  then show ?case
    using Cons.prems by (auto simp: sublist_Cons_right)
qed

lemma str_find_sublist: "(str_find s sub \<noteq> - 1) = sublist sub s"
  by (simp add: str_find_def find_from_sublist)

lemma popen_alt:
  "popen sh c s =
     ((fst (sh (world s) c), fst (snd (sh (world s) c))),
      s\<lparr>g_cmd := Some (PyStr c),
        calls := calls s @
          [\<lparr>c_cmd = c, c_out = fst (sh (world s) c), c_rc = fst (snd (sh (world s) c))\<rparr>],
        world := snd (snd (sh (world s) c))\<rparr>)"
  by (simp add: popen_def split: prod.splits)

lemma truthy_close: "truthy (close rc) = (rc \<noteq> 0)"
  by (simp add: close_def)

lemmas main_unfold =
  main_def run_module_def popen_alt truthy_close str_find_sublist init_state_def
  run_atexit_def clear_sensitive_data_def Let_def case_prod_beta

text \<open>The acquisition command line is none of the other command lines.\<close>

lemma kinit_cmd_neq [simp]:
  "kinit_cmd pw fw pr \<noteq> ''klist -s''" "kinit_cmd pw fw pr \<noteq> ''klist -l''"
  "kinit_cmd pw fw pr \<noteq> kdestroy_cmd pr'"
  "''klist -s'' \<noteq> kinit_cmd pw fw pr" "''klist -l'' \<noteq> kinit_cmd pw fw pr"
  "kdestroy_cmd pr' \<noteq> kinit_cmd pw fw pr"
  by (simp_all add: kinit_cmd_def kdestroy_cmd_def)


section \<open>The three ways a request runs\<close>

lemma valid_password:
  assumes "AnsibleModule raw = Inr ps"
  shows "r_password raw = Some (p_password ps)"
  using assms by (auto simp: AnsibleModule_def split: option.splits)

lemma main_invalid:
  assumes "AnsibleModule raw = Inl names"
  shows "main sh chk raw w =
     (ArgFail names, (init_state w)\<lparr>module_params_password := r_password raw\<rparr>)"
  using assms by (simp add: main_def run_module_def run_atexit_def init_state_def Let_def)

lemma main_dry_run:
  assumes "AnsibleModule raw = Inr ps"
  shows "main sh True raw w =
     (let res = initial_result ps in
      if p_force ps then (ExitJson (res\<lparr>changed := True\<rparr>), final_state (p_password ps) [] w)
      else case inspect sh (principal res) w of
        (found, cs, w') \<Rightarrow> (ExitJson (res\<lparr>changed := \<not> found\<rparr>), final_state (p_password ps) cs w'))"
  using assms
  by (simp add: main_unfold inspect_def run_call_def next_world_def final_state_def
      initial_result_def valid_password [OF assms])

lemma main_real:
  assumes "AnsibleModule raw = Inr ps"
  shows "main sh False raw w =
     (let res = initial_result ps; d = kdestroy_cmd (principal res) in
      if p_force ps then acquire sh ps [run_call sh w d] (next_world sh w d)
      else case inspect sh (principal res) w of
        (found, cs, w') \<Rightarrow>
          if found then (ExitJson res, final_state (p_password ps) cs w') else acquire sh ps cs w')"
  using assms
  by (simp add: main_unfold inspect_def acquire_def run_call_def next_world_def
      final_state_def valid_password [OF assms])

lemma alice_valid: "AnsibleModule alice = Inr alice_params"
  by (simp add: AnsibleModule_def alice_def alice_params_def)

section \<open>Concrete runs and the shape of an outcome\<close>

lemmas run_eval =
  main_def run_module_def popen_def init_state_def AnsibleModule_def table_shell_def
  kinit_cmd_def kdestroy_cmd_def initial_result_def forwardable_flag_def close_def
  run_atexit_def clear_sensitive_data_def str_find_def commands_def alice_def alice_params_def
  alice_kinit_def

lemma main_outcome_cases:
  assumes "AnsibleModule raw = Inr ps"
  shows "fst (main sh chk raw w) = ExitJson (initial_result ps) \<or>
         fst (main sh chk raw w) = ExitJson ((initial_result ps)\<lparr>changed := True\<rparr>) \<or>
         (\<exists>m. fst (main sh chk raw w) = FailJson m (initial_result ps))"
proof (cases chk)
  case True
  then show ?thesis
    by (cases "fst (inspect sh (principal (initial_result ps)) w)")
      (simp_all add: main_dry_run [OF assms] Let_def initial_result_def case_prod_beta)
next
  case False
  then show ?thesis
    by (simp add: main_real [OF assms] acquire_def Let_def case_prod_beta)
qed

lemmas closed_form =
  inspect_def acquire_def run_call_def next_world_def final_state_def Let_def commands_def
  case_prod_beta

text \<open>A request without \<^verbatim>\<open>force\<close> on a host whose cache lists the principal.\<close>

lemma main_noop:
  assumes "AnsibleModule raw = Inr ps" and "\<not> p_force ps"
    and "ticket_listed sh (principal (initial_result ps)) w"
  shows "main sh chk raw w =
     (ExitJson (initial_result ps),
      final_state (p_password ps)
        [run_call sh w ''klist -s'', run_call sh (next_world sh w ''klist -s'') ''klist -l'']
        (after_inspection sh w))"
proof (cases chk)
  case True
  with assms(2,3) show ?thesis
    by (simp add: main_dry_run [OF assms(1)] inspect_def Let_def ticket_listed_def
        after_inspection_def run_call_def next_world_def case_prod_beta initial_result_def)
next
  case False
  with assms(2,3) show ?thesis
    by (simp add: main_real [OF assms(1)] inspect_def Let_def ticket_listed_def
        after_inspection_def run_call_def next_world_def case_prod_beta)
qed

subsection \<open>Runs on the concrete hosts\<close>


lemma alice_initial:
  "initial_result alice_params =
     \<lparr>changed = False, username = ''alice'', password = ''[REDACTED]'',
      realm = ''EXAMPLE.COM'', principal = ''alice@EXAMPLE.COM'', force = False,
      forwardable = ''''\<rparr>"
  "initial_result (alice_params\<lparr>p_force := True\<rparr>) =
     \<lparr>changed = False, username = ''alice'', password = ''[REDACTED]'',
      realm = ''EXAMPLE.COM'', principal = ''alice@EXAMPLE.COM'', force = True,
      forwardable = ''''\<rparr>"
  by (simp_all add: initial_result_def alice_params_def forwardable_flag_def)

lemma alice_kinit_eq:
  "kinit_cmd (p_password alice_params) (forwardable (initial_result alice_params))
     (principal (initial_result alice_params)) = alice_kinit"
  "kinit_cmd (p_password (alice_params\<lparr>p_force := True\<rparr>))
     (forwardable (initial_result (alice_params\<lparr>p_force := True\<rparr>)))
     (principal (initial_result (alice_params\<lparr>p_force := True\<rparr>))) = alice_kinit"
  "kinit_cmd (p_password alice_params) (forwardable_flag (p_forwardable alice_params))
     (p_username alice_params @ ''@'' @ p_realm alice_params) = alice_kinit"
  by (simp_all add: initial_result_def alice_kinit_def alice_params_def forwardable_flag_def)


lemma alice_listed:
  "ticket_listed host_alice ''alice@EXAMPLE.COM'' ()"
  "after_inspection host_alice () = ()"
  by (simp_all add: ticket_listed_def after_inspection_def host_alice_def table_shell_def)

lemma eval_bad_password:
  "main host_bad_password False alice () =
     (FailJson ''bad password''
        \<lparr>changed = False, username = ''alice'', password = ''[REDACTED]'',
         realm = ''EXAMPLE.COM'', principal = ''alice@EXAMPLE.COM'', force = False,
         forwardable = ''''\<rparr>,
      final_state ''hunter2''
        [\<lparr>c_cmd = ''klist -s'', c_out = '''', c_rc = 1\<rparr>,
         \<lparr>c_cmd = alice_kinit, c_out = ''bad password'', c_rc = 1\<rparr>] ())"
  by (simp add: run_eval host_bad_password_def final_state_def)

lemma eval_alice_noop:
  "main host_alice False alice () =
     (ExitJson (initial_result alice_params),
      final_state ''hunter2''
        [\<lparr>c_cmd = ''klist -s'', c_out = '''', c_rc = 0\<rparr>,
         \<lparr>c_cmd = ''klist -l'', c_out = ''alice@EXAMPLE.COM'', c_rc = 0\<rparr>] ())"
  by (simp add: run_eval Let_def host_alice_def final_state_def)


lemma eval_bob_real:
  "main host_bob False alice () =
     (ExitJson ((initial_result alice_params)\<lparr>changed := True\<rparr>),
      final_state ''hunter2''
        [\<lparr>c_cmd = ''klist -s'', c_out = '''', c_rc = 0\<rparr>,
         \<lparr>c_cmd = ''klist -l'', c_out = ''bob@EXAMPLE.COM'', c_rc = 0\<rparr>,
         \<lparr>c_cmd = alice_kinit, c_out = '''', c_rc = 0\<rparr>] ())"
  by (simp add: run_eval Let_def host_bob_def final_state_def)

lemma eval_bob_dry:
  "main host_bob True alice () =
     (ExitJson ((initial_result alice_params)\<lparr>changed := True\<rparr>),
      final_state ''hunter2''
        [\<lparr>c_cmd = ''klist -s'', c_out = '''', c_rc = 0\<rparr>,
         \<lparr>c_cmd = ''klist -l'', c_out = ''bob@EXAMPLE.COM'', c_rc = 0\<rparr>] ())"
  by (simp add: run_eval Let_def host_bob_def final_state_def)

lemma eval_no_klist:
  "main host_no_klist False alice () =
     (ExitJson ((initial_result alice_params)\<lparr>changed := True\<rparr>),
      final_state ''hunter2''
        [\<lparr>c_cmd = ''klist -s'', c_out = ''sh: command not found'', c_rc = 127\<rparr>,
         \<lparr>c_cmd = alice_kinit, c_out = '''', c_rc = 0\<rparr>] ())"
  by (simp add: run_eval Let_def host_no_klist_def final_state_def)


lemma no_realm_invalid: "AnsibleModule no_realm = Inl [''realm'']"
  by (simp add: AnsibleModule_def no_realm_def missing_def)

section \<open>Masking\<close>









subsection \<open>What the concrete runs print\<close>






section \<open>Properties of a request\<close>




text \<open>
  C2, as amended. What the module clears is the two module-level names \<^verbatim>\<open>cmd\<close> and
  \<^verbatim>\<open>password\<close>, by deleting them in a handler registered with \<^verbatim>\<open>atexit\<close>. On every
  exit path of a request whose arguments parse (no-op, dry-run, acquisition succeeded,
  acquisition failed) the handler is registered and, when the process ends, both names
  are deleted. When the arguments are rejected no handler is registered and the two
  names still hold the \<^verbatim>\<open>None\<close> they were initialised to. So on every path neither name
  holds a string when the process ends. The module clears nothing else:
  \<^verbatim>\<open>module.params['password']\<close> holds at the end what the request gave, on every path.
\<close>

theorem C2_globals_deleted_params_kept:
  "cleared (g_password (snd (main sh chk raw w))) \<and>
   cleared (g_cmd (snd (main sh chk raw w))) \<and>
   module_params_password (snd (main sh chk raw w)) = r_password raw \<and>
   (\<forall>ps. AnsibleModule raw = Inr ps \<longrightarrow>
      atexit_handlers (snd (main sh chk raw w)) = [ClearSensitiveData] \<and>
      g_password (snd (main sh chk raw w)) = None \<and>
      g_cmd (snd (main sh chk raw w)) = None) \<and>
   (\<forall>names. AnsibleModule raw = Inl names \<longrightarrow>
      atexit_handlers (snd (main sh chk raw w)) = [] \<and>
      g_password (snd (main sh chk raw w)) = Some PyNone \<and>
      g_cmd (snd (main sh chk raw w)) = Some PyNone)"
proof (cases "AnsibleModule raw")
  case (Inl names)
  then show ?thesis
    by (simp add: main_invalid [OF Inl] init_state_def cleared_def)
next
  case (Inr ps)
  have "\<exists>cs w'. snd (main sh chk raw w) = final_state (p_password ps) cs w'"
  proof (cases chk)
    case True
    then show ?thesis
      by (auto simp: main_dry_run [OF Inr] Let_def case_prod_beta)
  next
    case False
    then show ?thesis
      by (auto simp: main_real [OF Inr] acquire_def Let_def case_prod_beta)
  qed
  then show ?thesis
    using Inr by (auto simp: final_state_def cleared_def valid_password [OF Inr])
qed

theorem C2_globals_deleted_params_kept_witness:
  "AnsibleModule alice = Inr alice_params \<and>
   g_password (snd (run_module host_bad_password False alice (init_state ()))) =
     Some (PyStr ''hunter2'') \<and>
   atexit_handlers (snd (main host_bad_password False alice ())) = [ClearSensitiveData] \<and>
   g_password (snd (main host_bad_password False alice ())) = None \<and>
   g_cmd (snd (main host_bad_password False alice ())) = None \<and>
   AnsibleModule no_realm = Inl [''realm''] \<and>
   atexit_handlers (snd (main host_bad_password False no_realm ())) = [] \<and>
   g_password (snd (main host_bad_password False no_realm ())) = Some PyNone \<and>
   g_cmd (snd (main host_bad_password False no_realm ())) = Some PyNone"
proof -
  have before: "g_password (snd (run_module host_bad_password False alice (init_state ()))) =
     Some (PyStr ''hunter2'')"
    by (simp add: run_eval Let_def host_bad_password_def)
  note parsed = C2_globals_deleted_params_kept [of host_bad_password False alice "()",
      THEN conjunct2, THEN conjunct2, THEN conjunct2, THEN conjunct1, rule_format,
      OF alice_valid]
  note rejected = C2_globals_deleted_params_kept [of host_bad_password False no_realm "()",
      THEN conjunct2, THEN conjunct2, THEN conjunct2, THEN conjunct2, rule_format,
      OF no_realm_invalid]
  from alice_valid before parsed [THEN conjunct1] parsed [THEN conjunct2, THEN conjunct1]
    parsed [THEN conjunct2, THEN conjunct2] no_realm_invalid rejected [THEN conjunct1]
    rejected [THEN conjunct2, THEN conjunct1] rejected [THEN conjunct2, THEN conjunct2]
  show ?thesis
    by - (intro conjI, assumption+)
qed

text \<open>
  C2 as stated says that on every exit path the secret's storage is cleared before the
  request finishes. After a no-op request with the password \<^verbatim>\<open>hunter2\<close>,
  \<^verbatim>\<open>module.params['password']\<close> still holds \<^verbatim>\<open>hunter2\<close>; and after a request that is
  rejected for its missing realm, no handler has been registered and the entry holds
  \<^verbatim>\<open>hunter2\<close> as well.
\<close>

theorem C2_counterexample:
  "r_password alice = Some ''hunter2'' \<and>
   fst (main host_alice False alice ()) = ExitJson (initial_result alice_params) \<and>
   module_params_password (snd (main host_alice False alice ())) = Some ''hunter2'' \<and>
   r_password no_realm = Some ''hunter2'' \<and>
   fst (main host_alice False no_realm ()) = ArgFail [''realm''] \<and>
   atexit_handlers (snd (main host_alice False no_realm ())) = [] \<and>
   module_params_password (snd (main host_alice False no_realm ())) = Some ''hunter2''"
proof -
  have 1: "r_password alice = Some ''hunter2''" "r_password no_realm = Some ''hunter2''"
    by (simp_all add: alice_def no_realm_def)
  have 2: "fst (main host_alice False alice ()) = ExitJson (initial_result alice_params)"
    "module_params_password (snd (main host_alice False alice ())) = Some ''hunter2''"
    by (simp_all add: eval_alice_noop final_state_def)
  have 3: "fst (main host_alice False no_realm ()) = ArgFail [''realm'']"
    "atexit_handlers (snd (main host_alice False no_realm ())) = []"
    "module_params_password (snd (main host_alice False no_realm ())) = Some ''hunter2''"
    by (simp_all add: main_invalid [OF no_realm_invalid] init_state_def 1)
  from 1(1) 2 1(2) 3 show ?thesis
    by - (intro conjI, assumption+)
qed

text \<open>
  C3, as amended. The module has no invocation error. For a request without
  \<^verbatim>\<open>force\<close>, outside check mode, whenever the status command ends with a non-zero
  exit status, whatever that status is (a shell answers 127 for a command it cannot
  run), the module takes it as "no valid ticket": the only other command it runs is the
  acquisition, and the outcome is decided by the acquisition alone, success with
  \<^verbatim>\<open>changed\<close> set or failure with the acquisition's output.
\<close>

theorem C3_status_failure_is_no_ticket:
  assumes "AnsibleModule raw = Inr ps" and "\<not> p_force ps"
    and "sh w ''klist -s'' = (out1, rc1, w1)" and "rc1 \<noteq> 0"
  shows "commands (main sh False raw w) =
           [''klist -s'',
            kinit_cmd (p_password ps) (forwardable (initial_result ps))
              (principal (initial_result ps))] \<and>
         fst (main sh False raw w) =
           (case sh w1 (kinit_cmd (p_password ps) (forwardable (initial_result ps))
                          (principal (initial_result ps))) of
              (out, rc, w2) \<Rightarrow>
                if rc = 0 then ExitJson ((initial_result ps)\<lparr>changed := True\<rparr>)
                else FailJson out (initial_result ps))"
  using assms(2-4)
  by (simp add: main_real [OF assms(1)] closed_form)

theorem C3_status_failure_is_no_ticket_witness:
  "AnsibleModule alice = Inr alice_params \<and> \<not> p_force alice_params \<and>
   host_bad_password () ''klist -s'' = ('''', 1, ()) \<and> (1::int) \<noteq> 0 \<and>
   host_bad_password () alice_kinit = (''bad password'', 1, ()) \<and>
   commands (main host_bad_password False alice ()) = [''klist -s'', alice_kinit] \<and>
   fst (main host_bad_password False alice ()) =
     FailJson ''bad password'' (initial_result alice_params)"
proof -
  have nf: "\<not> p_force alice_params" by (simp add: alice_params_def)
  have s1: "host_bad_password () ''klist -s'' = ('''', 1, ())"
    by (simp add: host_bad_password_def table_shell_def)
  have s2: "host_bad_password () alice_kinit = (''bad password'', 1, ())"
    by (simp add: host_bad_password_def table_shell_def alice_kinit_def)
  have nz: "(1::int) \<noteq> 0" by simp
  from C3_status_failure_is_no_ticket [where sh = host_bad_password and w = "()",
      OF alice_valid nf s1 nz]
  have "commands (main host_bad_password False alice ()) = [''klist -s'', alice_kinit]"
    and "fst (main host_bad_password False alice ()) =
      FailJson ''bad password'' (initial_result alice_params)"
    unfolding alice_kinit_eq s2 by simp_all
  with alice_valid nf s1 s2 nz show ?thesis by blast
qed

text \<open>
  C3 as stated says that a status primitive that cannot be invoked is never treated as
  "no valid ticket". On a host that has no \<^verbatim>\<open>klist\<close> the status command ends with
  127; the module goes on to the acquisition and reports success with \<^verbatim>\<open>changed\<close>
  set.
\<close>

theorem C3_counterexample:
  "host_no_klist () ''klist -s'' = (''sh: command not found'', 127, ()) \<and>
   commands (main host_no_klist False alice ()) =
     [''klist -s'', kinit_cmd ''hunter2'' '''' ''alice@EXAMPLE.COM''] \<and>
   fst (main host_no_klist False alice ()) =
     ExitJson
       \<lparr>changed = True, username = ''alice'', password = ''[REDACTED]'',
        realm = ''EXAMPLE.COM'', principal = ''alice@EXAMPLE.COM'', force = False,
        forwardable = ''''\<rparr>"
proof -
  have "host_no_klist () ''klist -s'' = (''sh: command not found'', 127, ())"
    by (simp add: host_no_klist_def table_shell_def alice_kinit_def kinit_cmd_def)
  moreover have "commands (main host_no_klist False alice ()) =
     [''klist -s'', kinit_cmd ''hunter2'' '''' ''alice@EXAMPLE.COM'']"
    by (simp add: eval_no_klist commands_def final_state_def alice_kinit_def)
  moreover have "fst (main host_no_klist False alice ()) =
     ExitJson
       \<lparr>changed = True, username = ''alice'', password = ''[REDACTED]'',
        realm = ''EXAMPLE.COM'', principal = ''alice@EXAMPLE.COM'', force = False,
        forwardable = ''''\<rparr>"
    by (simp add: eval_no_klist alice_initial)
  ultimately show ?thesis by blast
qed

text \<open>
  C4. In check mode, whatever the arguments and the host, every command line given to
  the shell is the status command or the listing command: neither the destroy nor the
  acquisition command runs. When the arguments parse, the request exits normally and
  reports as \<^verbatim>\<open>changed\<close> whether the same request outside check mode, on the same
  host, would run the acquisition command.
\<close>

theorem C4_dry_run_purity:
  "set (commands (main sh True raw w)) \<subseteq> {''klist -s'', ''klist -l''} \<and>
   (\<forall>ps. AnsibleModule raw = Inr ps \<longrightarrow>
      fst (main sh True raw w) =
        ExitJson ((initial_result ps)
          \<lparr>changed :=
             kinit_cmd (p_password ps) (forwardable (initial_result ps))
               (principal (initial_result ps))
             \<in> set (commands (main sh False raw w))\<rparr>))"
proof (cases "AnsibleModule raw")
  case (Inl names)
  then show ?thesis
    by (simp add: main_invalid [OF Inl] init_state_def commands_def)
next
  case (Inr ps)
  have "set (commands (main sh True raw w)) \<subseteq> {''klist -s'', ''klist -l''}"
    by (simp add: main_dry_run [OF Inr] closed_form)
  moreover have "fst (main sh True raw w) =
        ExitJson ((initial_result ps)
          \<lparr>changed :=
             kinit_cmd (p_password ps) (forwardable (initial_result ps))
               (principal (initial_result ps))
             \<in> set (commands (main sh False raw w))\<rparr>)"
    by (simp add: main_dry_run [OF Inr] main_real [OF Inr] closed_form initial_result_def)
  ultimately show ?thesis using Inr by simp
qed

theorem C4_dry_run_purity_witness:
  "AnsibleModule alice = Inr alice_params \<and>
   alice_kinit \<in> set (commands (main host_bob False alice ())) \<and>
   set (commands (main host_bob True alice ())) \<subseteq> {''klist -s'', ''klist -l''} \<and>
   fst (main host_bob True alice ()) = ExitJson ((initial_result alice_params)\<lparr>changed := True\<rparr>)"
proof -
  have mem: "alice_kinit \<in> set (commands (main host_bob False alice ()))"
    by (simp add: eval_bob_real commands_def final_state_def)
  from C4_dry_run_purity [of host_bob alice "()"] alice_valid mem show ?thesis
    by (simp add: alice_kinit_def alice_params_def initial_result_def forwardable_flag_def)
qed



text \<open>
  C6. Without \<^verbatim>\<open>force\<close>, on hosts where the status command succeeds and the listing
  contains the principal, and which stay such hosts after these two commands, any number
  \<open>n\<close> of requests one after the other all end normally with \<^verbatim>\<open>changed\<close> false,
  and each runs the status and the listing command and nothing else.
\<close>

theorem C6_idempotent:
  assumes "AnsibleModule raw = Inr ps" and "\<not> p_force ps"
    and "w \<in> W"
    and "\<forall>v\<in>W. ticket_listed sh (principal (initial_result ps)) v \<and> after_inspection sh v \<in> W"
  shows "length (repeat_main sh chk raw n w) = n \<and>
         (\<forall>r\<in>set (repeat_main sh chk raw n w).
            fst r = ExitJson (initial_result ps) \<and> \<not> changed (initial_result ps) \<and>
            commands r = [''klist -s'', ''klist -l''])"
  using assms(3)
proof (induction n arbitrary: w)
  case 0
  then show ?case by simp
next
  case (Suc n)
  from Suc.prems assms(4)
  have listed: "ticket_listed sh (principal (initial_result ps)) w"
    and next_in: "after_inspection sh w \<in> W"
    by auto
  note step = main_noop [OF assms(1,2) listed, of chk]
  have world: "world (snd (main sh chk raw w)) = after_inspection sh w"
    by (simp add: step final_state_def)
  have here: "fst (main sh chk raw w) = ExitJson (initial_result ps)"
    "commands (main sh chk raw w) = [''klist -s'', ''klist -l'']"
    by (simp_all add: step commands_def final_state_def run_call_def)
  have unchanged: "\<not> changed (initial_result ps)"
    by (simp add: initial_result_def)
  from Suc.IH [OF next_in] here unchanged world show ?case
    by (simp add: Let_def)
qed

theorem C6_idempotent_witness:
  "AnsibleModule alice = Inr alice_params \<and> \<not> p_force alice_params \<and>
   ticket_listed host_alice ''alice@EXAMPLE.COM'' () \<and>
   after_inspection host_alice () = () \<and>
   length (repeat_main host_alice False alice 3 ()) = 3 \<and>
   list_all
     (\<lambda>r. fst r = ExitJson (initial_result alice_params) \<and>
        commands r = [''klist -s'', ''klist -l''])
     (repeat_main host_alice False alice 3 ())"
proof -
  have nf: "\<not> p_force alice_params" by (simp add: alice_params_def)
  have here: "() \<in> {()}" by simp
  have inv: "\<forall>v\<in>{()}. ticket_listed host_alice (principal (initial_result alice_params)) v \<and>
      after_inspection host_alice v \<in> {()}"
    by (simp add: alice_initial alice_listed)
  from C6_idempotent [OF alice_valid nf here inv, of False 3] alice_valid nf alice_listed
  show ?thesis
    by (simp add: list_all_iff)
qed

text \<open>
  C7. Whenever a request ran the acquisition command and that command ended with a
  non-zero status, the request ends in \<^verbatim>\<open>fail_json\<close> whose message is the output of
  that command, unchanged, and whose result is the initial one, with \<^verbatim>\<open>changed\<close>
  false.
\<close>

theorem C7_acquisition_failure:
  assumes "AnsibleModule raw = Inr ps"
    and "k \<in> set (calls (snd (main sh chk raw w)))"
    and "c_cmd k =
      kinit_cmd (p_password ps) (forwardable (initial_result ps)) (principal (initial_result ps))"
    and "c_rc k \<noteq> 0"
  shows "fst (main sh chk raw w) = FailJson (c_out k) (initial_result ps) \<and>
         changed (initial_result ps) = False"
proof (cases chk)
  case True
  with assms(2,3) have False
    by (auto simp: main_dry_run [OF assms(1)] closed_form split: if_splits)
  then show ?thesis ..
next
  case False
  with assms(2,3,4) show ?thesis
    by (auto simp: main_real [OF assms(1)] closed_form initial_result_def split: if_splits)
qed

theorem C7_acquisition_failure_witness:
  "AnsibleModule alice = Inr alice_params \<and>
   \<lparr>c_cmd = alice_kinit, c_out = ''bad password'', c_rc = 1\<rparr>
     \<in> set (calls (snd (main host_bad_password False alice ()))) \<and>
   fst (main host_bad_password False alice ()) =
     FailJson ''bad password''
       \<lparr>changed = False, username = ''alice'', password = ''[REDACTED]'',
        realm = ''EXAMPLE.COM'', principal = ''alice@EXAMPLE.COM'', force = False,
        forwardable = ''''\<rparr>"
proof -
  let ?k = "\<lparr>c_cmd = alice_kinit, c_out = ''bad password'', c_rc = 1\<rparr>"
  have mem: "?k \<in> set (calls (snd (main host_bad_password False alice ())))"
    by (simp add: eval_bad_password final_state_def)
  have cmd: "c_cmd ?k =
      kinit_cmd (p_password alice_params) (forwardable (initial_result alice_params))
        (principal (initial_result alice_params))"
    by (simp add: alice_kinit_eq)
  have rc: "c_rc ?k \<noteq> 0" by simp
  from C7_acquisition_failure [OF alice_valid mem cmd rc] alice_valid mem show ?thesis
    by (simp add: alice_params_def initial_result_def forwardable_flag_def)
qed



text \<open>
  C9. A request that fails reports \<^verbatim>\<open>changed\<close> false. Outside check mode, a request
  that reports \<^verbatim>\<open>changed\<close> set has run the acquisition command last, and that
  command ended with status 0. In check mode, a request that reports \<^verbatim>\<open>changed\<close>
  set is one that would run the acquisition command outside check mode on the same
  host.
\<close>

theorem C9_changed_after_success:
  assumes "AnsibleModule raw = Inr ps"
  shows "(\<forall>m r. fst (main sh chk raw w) = FailJson m r \<longrightarrow> \<not> changed r) \<and>
         (\<forall>r. fst (main sh False raw w) = ExitJson r \<and> changed r \<longrightarrow>
            calls (snd (main sh False raw w)) \<noteq> [] \<and>
            c_cmd (last (calls (snd (main sh False raw w)))) =
              kinit_cmd (p_password ps) (forwardable (initial_result ps))
                (principal (initial_result ps)) \<and>
            c_rc (last (calls (snd (main sh False raw w)))) = 0) \<and>
         (\<forall>r. fst (main sh True raw w) = ExitJson r \<and> changed r \<longrightarrow>
            kinit_cmd (p_password ps) (forwardable (initial_result ps))
              (principal (initial_result ps))
            \<in> set (commands (main sh False raw w)))"
proof (intro conjI allI impI)
  fix m r assume "fst (main sh chk raw w) = FailJson m r"
  with main_outcome_cases [OF assms, of sh chk w] have "r = initial_result ps" by auto
  then show "\<not> changed r" by (simp add: initial_result_def)
next
  fix r assume a: "fst (main sh False raw w) = ExitJson r \<and> changed r"
  then show "calls (snd (main sh False raw w)) \<noteq> []"
    by (auto simp: main_real [OF assms] closed_form initial_result_def split: if_splits)
  from a show "c_cmd (last (calls (snd (main sh False raw w)))) =
              kinit_cmd (p_password ps) (forwardable (initial_result ps))
                (principal (initial_result ps))"
    by (auto simp: main_real [OF assms] closed_form initial_result_def split: if_splits)
  from a show "c_rc (last (calls (snd (main sh False raw w)))) = 0"
    by (auto simp: main_real [OF assms] closed_form initial_result_def split: if_splits)
next
  fix r assume "fst (main sh True raw w) = ExitJson r \<and> changed r"
  then show "kinit_cmd (p_password ps) (forwardable (initial_result ps))
              (principal (initial_result ps))
            \<in> set (commands (main sh False raw w))"
    by (auto simp: main_dry_run [OF assms] main_real [OF assms] closed_form initial_result_def
        split: if_splits)
qed

theorem C9_changed_after_success_witness:
  "AnsibleModule alice = Inr alice_params \<and>
   fst (main host_bad_password False alice ()) =
     FailJson ''bad password'' (initial_result alice_params) \<and>
   \<not> changed (initial_result alice_params) \<and>
   fst (main host_bob False alice ()) =
     ExitJson ((initial_result alice_params)\<lparr>changed := True\<rparr>) \<and>
   changed ((initial_result alice_params)\<lparr>changed := True\<rparr>) \<and>
   c_cmd (last (calls (snd (main host_bob False alice ())))) = alice_kinit \<and>
   c_rc (last (calls (snd (main host_bob False alice ())))) = 0 \<and>
   fst (main host_bob True alice ()) =
     ExitJson ((initial_result alice_params)\<lparr>changed := True\<rparr>) \<and>
   alice_kinit \<in> set (commands (main host_bob False alice ()))"
proof -
  note failing = C9_changed_after_success [OF alice_valid, of host_bad_password False "()"]
  note passing = C9_changed_after_success [OF alice_valid, of host_bob False "()"]
  have f: "fst (main host_bad_password False alice ()) =
      FailJson ''bad password'' (initial_result alice_params)"
    by (simp add: eval_bad_password alice_initial)
  have r: "fst (main host_bob False alice ()) =
      ExitJson ((initial_result alice_params)\<lparr>changed := True\<rparr>)"
    by (simp add: eval_bob_real)
  have d: "fst (main host_bob True alice ()) =
      ExitJson ((initial_result alice_params)\<lparr>changed := True\<rparr>)"
    by (simp add: eval_bob_dry)
  have c: "changed ((initial_result alice_params)\<lparr>changed := True\<rparr>)"
    by simp
  from failing f have 1: "\<not> changed (initial_result alice_params)"
    by blast
  from passing r c have 2:
    "c_cmd (last (calls (snd (main host_bob False alice ())))) =
       kinit_cmd (p_password alice_params) (forwardable (initial_result alice_params))
         (principal (initial_result alice_params))"
    "c_rc (last (calls (snd (main host_bob False alice ())))) = 0"
    by blast+
  from passing d c have 3:
    "kinit_cmd (p_password alice_params) (forwardable (initial_result alice_params))
       (principal (initial_result alice_params))
     \<in> set (commands (main host_bob False alice ()))"
    by blast
  from alice_valid f 1 r c 2 d 3 show ?thesis
    unfolding alice_kinit_eq by blast
qed

text \<open>
  C10. On every exit path of a request whose arguments parse (no-op, dry-run report,
  successful acquisition, failed acquisition) the outcome carries a result whose
  \<^verbatim>\<open>username\<close>, \<^verbatim>\<open>realm\<close>, \<^verbatim>\<open>principal\<close> (the username, an at sign, the realm),
  \<^verbatim>\<open>force\<close> and \<^verbatim>\<open>forwardable\<close> (the empty string for unset, \<^verbatim>\<open>-f\<close> for true,
  \<^verbatim>\<open>-F\<close> for false) are the values computed from the arguments before any command
  runs, and whose \<^verbatim>\<open>password\<close> is the redaction marker: apart from \<^verbatim>\<open>changed\<close> the
  result is the initial one, whatever the host answered.
\<close>

theorem C10_outcome_frame:
  assumes "AnsibleModule raw = Inr ps"
  shows "\<exists>r. result_of (fst (main sh chk raw w)) = Some r \<and>
           username r = p_username ps \<and> realm r = p_realm ps \<and>
           principal r = p_username ps @ ''@'' @ p_realm ps \<and>
           force r = p_force ps \<and>
           forwardable r =
             (case p_forwardable ps of None \<Rightarrow> '''' | Some True \<Rightarrow> ''-f''
              | Some False \<Rightarrow> ''-F'') \<and>
           password r = ''[REDACTED]'' \<and>
           r\<lparr>changed := False\<rparr> = initial_result ps"
proof -
  have flag: "forwardable (initial_result ps) =
      (case p_forwardable ps of None \<Rightarrow> '''' | Some True \<Rightarrow> ''-f'' | Some False \<Rightarrow> ''-F'')"
    by (simp add: initial_result_def forwardable_flag_def split: option.splits bool.splits)
  have rest: "username (initial_result ps) = p_username ps"
    "realm (initial_result ps) = p_realm ps"
    "principal (initial_result ps) = p_username ps @ ''@'' @ p_realm ps"
    "force (initial_result ps) = p_force ps"
    "password (initial_result ps) = ''[REDACTED]''"
    "changed (initial_result ps) = False"
    by (simp_all add: initial_result_def)
  from main_outcome_cases [OF assms, of sh chk w] show ?thesis
  proof (elim disjE exE)
    assume "fst (main sh chk raw w) = ExitJson (initial_result ps)"
    then show ?thesis using flag rest by simp
  next
    assume "fst (main sh chk raw w) = ExitJson ((initial_result ps)\<lparr>changed := True\<rparr>)"
    then show ?thesis using flag rest by simp
  next
    fix m assume "fst (main sh chk raw w) = FailJson m (initial_result ps)"
    then show ?thesis using flag rest by simp
  qed
qed

theorem C10_outcome_frame_witness:
  "AnsibleModule alice = Inr alice_params \<and>
   (\<exists>r. fst (main host_bad_password False alice ()) = FailJson ''bad password'' r \<and>
      username r = ''alice'' \<and> realm r = ''EXAMPLE.COM'' \<and>
      principal r = ''alice@EXAMPLE.COM'' \<and> force r = False \<and> forwardable r = '''' \<and>
      password r = ''[REDACTED]'')"
  using C10_outcome_frame [OF alice_valid, of host_bad_password False "()"] alice_valid
  by (simp add: eval_bad_password alice_params_def initial_result_def forwardable_flag_def)

end
